theory Spec2Isabelle
  imports Complex_Main
begin

section \<open>Expense transactions: amounts, FX rates, fees and taxes\<close>

text \<open>
  A shallow embedding of the expense part of the transactions library:
  \<^verbatim>\<open>computeExpenseAmounts\<close>, \<^verbatim>\<open>createTransactionsFromPaidExpense\<close>,
  \<^verbatim>\<open>createTransactionsForManuallyPaidExpense\<close> and \<^verbatim>\<open>computeExpenseTaxes\<close>.

  Numbers. A JavaScript \<^verbatim>\<open>number\<close> is a double, with its rounded arithmetic, its
  infinities, its \<^verbatim>\<open>NaN\<close> and its negative zero. Each function of the source is
  translated once, over an arbitrary number system \<open>ops\<close> that supplies the operators the
  source applies (the functions named \<open>_over\<close>): what is proved of it for every \<open>ops\<close>
  holds of the source, whatever the doubles do. The functions that carry the source's
  names read the same translation over the exact reals (\<open>exact\<close>). That reading leaves out
  the rounding of double arithmetic and the values that are not finite; it is used where
  a statement is about order, sums and bounds, which no arbitrary number system can
  express.

  Failures. A \<^verbatim>\<open>throw\<close>, a failed \<^verbatim>\<open>assert\<close> and the dereference of a missing
  collective are values \<open>Inl e\<close> of the sum type; \<open>Inr t\<close> is the record handed to
  \<^verbatim>\<open>models.Transaction.createDoubleEntry\<close>, the only write of either builder.

  Effects. The builders also update their arguments in place: the collective, once loaded,
  is kept on the expense, and the manual builder tags the caller's \<^verbatim>\<open>transactionData\<close>
  with the payer of the fees. The model returns the record only; both updates show in it.

  Record fields carry the name of their record as a prefix where two records of the
  source share a field name; the fields of the transaction keep the source's names.
\<close>

subsection \<open>Numbers\<close>

text \<open>
  The operators of the source on numbers: the literals (\<open>js_num\<close>), \<^verbatim>\<open>+\<close>, the binary
  and the unary \<^verbatim>\<open>-\<close>, \<^verbatim>\<open>*\<close>, \<^verbatim>\<open>/\<close>, \<^verbatim>\<open>Math.abs\<close>, \<^verbatim>\<open>Math.round\<close>, lodash's
  \<^verbatim>\<open>round(number, precision)\<close> (\<^verbatim>\<open>round(number)\<close> is precision 0), \<^verbatim>\<open>>=\<close>, \<^verbatim>\<open>>\<close>
  and the test \<open>js_falsy\<close> that \<^verbatim>\<open>||\<close> makes of its left operand.
\<close>

record 'n arith =
  js_num :: "int \<Rightarrow> 'n"
  js_add :: "'n \<Rightarrow> 'n \<Rightarrow> 'n"
  js_sub :: "'n \<Rightarrow> 'n \<Rightarrow> 'n"
  js_mul :: "'n \<Rightarrow> 'n \<Rightarrow> 'n"
  js_div :: "'n \<Rightarrow> 'n \<Rightarrow> 'n"
  js_neg :: "'n \<Rightarrow> 'n"
  js_abs :: "'n \<Rightarrow> 'n"
  js_round :: "'n \<Rightarrow> 'n"
  js_roundTo :: "'n \<Rightarrow> nat \<Rightarrow> 'n"
  js_ge :: "'n \<Rightarrow> 'n \<Rightarrow> bool"
  js_gt :: "'n \<Rightarrow> 'n \<Rightarrow> bool"
  js_falsy :: "'n \<Rightarrow> bool"

text \<open>\<^verbatim>\<open>Math.round\<close>: the nearest integer, a tie going towards plus infinity.\<close>

definition Math_round :: "real \<Rightarrow> real" where
  "Math_round x = of_int \<lfloor>x + 1 / 2\<rfloor>"

text \<open>
  lodash's \<^verbatim>\<open>round(number, precision)\<close>: \<^verbatim>\<open>Math.round\<close> after shifting the decimal
  point by \<open>precision\<close> places, and shifting back.
\<close>

definition round_lodash :: "real \<Rightarrow> nat \<Rightarrow> real" where
  "round_lodash x precision = Math_round (x * 10 ^ precision) / 10 ^ precision"

text \<open>The exact reals as a number system; zero is their only falsy value.\<close>

definition exact :: "real arith" where
  "exact =
     \<lparr>js_num = of_int, js_add = (+), js_sub = (-), js_mul = (*), js_div = (/),
      js_neg = uminus, js_abs = abs, js_round = Math_round, js_roundTo = round_lodash,
      js_ge = (\<ge>), js_gt = (>), js_falsy = (\<lambda>x. x = 0)\<rparr>"

text \<open>
  Modelled from the spec: \<^verbatim>\<open>toNegative\<close> of \<^verbatim>\<open>lib/math\<close> is imported by the
  source but is not part of it. The specification calls each stored fee the "negated
  host-currency fee value" and writes the manual gross amount as
  \<open>-(totalPaid - processorFee)\<close>: the helper negates its argument.
\<close>

definition toNegative_over :: "'n arith \<Rightarrow> 'n \<Rightarrow> 'n" where
  "toNegative_over ops n = js_neg ops n"

text \<open>
  lodash's \<^verbatim>\<open>sumBy\<close>: \<open>0\<close> for no element, and otherwise the elements added from the
  left, starting with the first.
\<close>

definition sumBy_over :: "'n arith \<Rightarrow> 'n list \<Rightarrow> 'n" where
  "sumBy_over ops xs = (case xs of [] \<Rightarrow> js_num ops 0 | x # rest \<Rightarrow> foldl (js_add ops) x rest)"

subsection \<open>Data\<close>

datatype error =
    UnsupportedCurrencyCombination
  | InvalidArgument
  | RateUnavailable
  | TypeError

datatype TransactionTypes = CREDIT | DEBIT

datatype TransactionKind =
    ADDED_FUNDS | BALANCE_TRANSFER | CONTRIBUTION | EXPENSE | HOST_FEE | HOST_FEE_SHARE
  | HOST_FEE_SHARE_DEBT | PAYMENT_PROCESSOR_COVER | PLATFORM_TIP | PLATFORM_TIP_DEBT
  | PREPAID_PAYMENT_METHOD

text \<open>The values of a \<^verbatim>\<open>Record<string, unknown>\<close>, and such a record as a map.\<close>

datatype 'n json = JNull | JBool bool | JNum 'n | JStr string | JObj "(string \<times> 'n json) list"

type_synonym 'n payload = "string \<rightharpoonup> 'n json"

record collective =
  collective_id :: nat
  collective_currency :: string

record host =
  host_id :: nat
  host_currency :: string

record 'n tax =
  tax_type :: string
  tax_rate :: 'n

text \<open>
  \<open>expense_collective\<close> is \<^verbatim>\<open>expense.collective\<close>, \<open>None\<close> when the association is
  not loaded. \<open>expense_taxes\<close> is \<^verbatim>\<open>expense.data?.taxes\<close>; a missing \<^verbatim>\<open>data\<close> or
  \<^verbatim>\<open>taxes\<close> is the empty list, which every use in the source treats alike
  (\<^verbatim>\<open>?.length\<close> is falsy).
\<close>

record 'n expense =
  expense_id :: nat
  expense_amount :: 'n
  expense_currency :: string
  expense_collective :: "collective option"
  expense_description :: string
  expense_feesPayer :: string
  expense_taxes :: "'n tax list"
  expense_UserId :: nat
  expense_CollectiveId :: nat
  expense_FromCollectiveId :: nat
  expense_PayoutMethodId :: "nat option"

text \<open>\<^verbatim>\<open>FEES_IN_HOST_CURRENCY\<close>: every field is optional.\<close>

record 'n FEES_IN_HOST_CURRENCY =
  fees_paymentProcessorFeeInHostCurrency :: "'n option"
  fees_hostFeeInHostCurrency :: "'n option"
  fees_platformFeeInHostCurrency :: "'n option"

text \<open>The fees after \<^verbatim>\<open>{ ...DEFAULT_FEES, ...fees }\<close>: every field is a number.\<close>

record 'n fees =
  paymentProcessorFee_in :: 'n
  hostFee_in :: 'n
  platformFee_in :: 'n

definition DEFAULT_FEES_over :: "'n arith \<Rightarrow> 'n fees" where
  "DEFAULT_FEES_over ops =
     \<lparr>paymentProcessorFee_in = js_num ops 0, hostFee_in = js_num ops 0,
      platformFee_in = js_num ops 0\<rparr>"

definition mergeFees :: "'n fees \<Rightarrow> 'n FEES_IN_HOST_CURRENCY \<Rightarrow> 'n fees" where
  "mergeFees d f =
     \<lparr>paymentProcessorFee_in =
        (case fees_paymentProcessorFeeInHostCurrency f of
           None \<Rightarrow> paymentProcessorFee_in d | Some x \<Rightarrow> x),
      hostFee_in =
        (case fees_hostFeeInHostCurrency f of None \<Rightarrow> hostFee_in d | Some x \<Rightarrow> x),
      platformFee_in =
        (case fees_platformFeeInHostCurrency f of None \<Rightarrow> platformFee_in d | Some x \<Rightarrow> x)\<rparr>"

record 'n fxRates =
  expenseToHost :: 'n
  collectiveToHost :: 'n
  expenseToCollective :: 'n

record 'n amounts =
  inHostCurrency :: 'n
  inCollectiveCurrency :: 'n
  inExpenseCurrency :: 'n

record 'n processedAmounts =
  pa_fxRates :: "'n fxRates"
  pa_amount :: "'n amounts"
  pa_paymentProcessorFee :: "'n amounts"
  pa_hostFee :: "'n amounts"
  pa_platformFee :: "'n amounts"

record 'n transaction =
  netAmountInCollectiveCurrency :: 'n
  amountInHostCurrency :: 'n
  hostCurrency :: string
  hostCurrencyFxRate :: 'n
  paymentProcessorFeeInHostCurrency :: 'n
  hostFeeInHostCurrency :: 'n
  platformFeeInHostCurrency :: 'n
  ExpenseId :: nat
  type :: TransactionTypes
  kind :: TransactionKind
  amount :: 'n
  currency :: string
  description :: string
  CreatedByUserId :: nat
  CollectiveId :: nat
  FromCollectiveId :: nat
  HostCollectiveId :: nat
  PaymentMethodId :: "nat option"
  PayoutMethodId :: "nat option"
  taxAmount :: "'n option"
  data :: "'n payload"

text \<open>
  The collaborators: \<^verbatim>\<open>models.Collective.findByPk\<close> and \<^verbatim>\<open>getFxRate\<close> (the rate
  of a pair of currencies at the time of the call, or its failure).
\<close>

record 'n env =
  findByPk :: "nat \<Rightarrow> collective option"
  getFxRate :: "string \<Rightarrow> string \<Rightarrow> error + 'n"

text \<open>\<^verbatim>\<open>expenseToHostFxRateConfig: number | 'auto'\<close>.\<close>

datatype 'n fxRateConfig = Rate 'n | Auto

subsection \<open>computeExpenseAmounts\<close>

definition computeExpenseAmounts_over ::
  "'n arith \<Rightarrow> 'n expense \<Rightarrow> string \<Rightarrow> 'n \<Rightarrow> 'n fees \<Rightarrow> error + 'n processedAmounts" where
  "computeExpenseAmounts_over ops expense hostCurrency' expenseToHostFxRate fees =
     (case expense_collective expense of
        None \<Rightarrow> Inl TypeError
      | Some collective \<Rightarrow>
          (case
             (if collective_currency collective = hostCurrency' then
                Inr \<lparr>expenseToHost = expenseToHostFxRate, collectiveToHost = js_num ops 1,
                     expenseToCollective = expenseToHostFxRate\<rparr>
              else if expense_currency expense = collective_currency collective then
                Inr \<lparr>expenseToHost = expenseToHostFxRate,
                     collectiveToHost = expenseToHostFxRate,
                     expenseToCollective = js_num ops 1\<rparr>
              else Inl UnsupportedCurrencyCombination)
           of
             Inl e \<Rightarrow> Inl e
           | Inr fxRates \<Rightarrow>
               Inr \<lparr>pa_fxRates = fxRates,
                    pa_amount =
                      \<lparr>inHostCurrency =
                         js_round ops (js_mul ops (expense_amount expense) (expenseToHost fxRates)),
                       inCollectiveCurrency =
                         js_round ops
                           (js_mul ops (expense_amount expense) (expenseToCollective fxRates)),
                       inExpenseCurrency = expense_amount expense\<rparr>,
                    pa_paymentProcessorFee =
                      \<lparr>inHostCurrency = paymentProcessorFee_in fees,
                       inCollectiveCurrency =
                         js_round ops
                           (js_div ops (paymentProcessorFee_in fees) (collectiveToHost fxRates)),
                       inExpenseCurrency =
                         js_round ops
                           (js_div ops (paymentProcessorFee_in fees) (expenseToHost fxRates))\<rparr>,
                    pa_hostFee =
                      \<lparr>inHostCurrency = hostFee_in fees,
                       inCollectiveCurrency =
                         js_round ops (js_div ops (hostFee_in fees) (collectiveToHost fxRates)),
                       inExpenseCurrency =
                         js_round ops (js_div ops (hostFee_in fees) (expenseToHost fxRates))\<rparr>,
                    pa_platformFee =
                      \<lparr>inHostCurrency = platformFee_in fees,
                       inCollectiveCurrency =
                         js_round ops
                           (js_div ops (platformFee_in fees) (collectiveToHost fxRates)),
                       inExpenseCurrency =
                         js_round ops
                           (js_div ops (platformFee_in fees) (expenseToHost fxRates))\<rparr>\<rparr>))"

subsection \<open>computeExpenseTaxes\<close>

text \<open>
  \<^verbatim>\<open>sumBy(expense.data.taxes, 'rate')\<close> adds the rates. The final \<^verbatim>\<open>|| 0\<close>
  replaces a falsy result (a zero of either sign, \<^verbatim>\<open>NaN\<close>) by \<open>0\<close>.
\<close>

definition computeExpenseTaxes_over :: "'n arith \<Rightarrow> 'n expense \<Rightarrow> 'n option" where
  "computeExpenseTaxes_over ops expense =
     (if expense_taxes expense = [] then None
      else
        let ratesSum = sumBy_over ops (map tax_rate (expense_taxes expense));
            amountWithoutTaxes =
              js_div ops (expense_amount expense) (js_add ops (js_num ops 1) ratesSum);
            result =
              js_neg ops (js_round ops (js_sub ops (expense_amount expense) amountWithoutTaxes))
        in Some (if js_falsy ops result then js_num ops 0 else result))"

subsection \<open>The builders\<close>

text \<open>
  The \<^verbatim>\<open>tax\<close> entry of the transaction's data: the first tax line, with \<^verbatim>\<open>id\<close>,
  the rate rounded to four decimals and the legacy \<^verbatim>\<open>percentage\<close>.
\<close>

definition taxForTransaction_over :: "'n arith \<Rightarrow> 'n tax \<Rightarrow> 'n json" where
  "taxForTransaction_over ops t =
     JObj [(''type'', JStr (tax_type t)),
           (''rate'', JNum (js_roundTo ops (tax_rate t) 4)),
           (''id'', JStr (tax_type t)),
           (''percentage'', JNum (js_roundTo ops (js_mul ops (tax_rate t) (js_num ops 100)) 0))]"

text \<open>The object spread \<^verbatim>\<open>...x\<close> of a value that may be \<^verbatim>\<open>null\<close>.\<close>

definition spread :: "'n payload option \<Rightarrow> 'n payload" where
  "spread x = (case x of None \<Rightarrow> Map.empty | Some m \<Rightarrow> m)"

record paymentMethod =
  paymentMethod_id :: nat

text \<open>
  \<^verbatim>\<open>expense.collective = expense.collective || (await models.Collective.findByPk(expense.CollectiveId))\<close>:
  the expense with its collective loaded, when the lookup finds one.
\<close>

definition loadCollective :: "'n env \<Rightarrow> 'n expense \<Rightarrow> 'n expense" where
  "loadCollective env expense =
     expense\<lparr>expense_collective :=
       (case expense_collective expense of
          Some c \<Rightarrow> Some c
        | None \<Rightarrow> findByPk env (expense_CollectiveId expense))\<rparr>"

text \<open>The rate supplied, or the one fetched for the expense's and the host's currency.\<close>

definition resolveFxRate ::
  "'n env \<Rightarrow> 'n fxRateConfig \<Rightarrow> 'n expense \<Rightarrow> host \<Rightarrow> error + 'n" where
  "resolveFxRate env expenseToHostFxRateConfig expense host =
     (case expenseToHostFxRateConfig of
        Auto \<Rightarrow> getFxRate env (expense_currency expense) (host_currency host)
      | Rate r \<Rightarrow> Inr r)"

text \<open>
  \<^verbatim>\<open>createTransactionsFromPaidExpense\<close>. The steps follow the source: the fees are
  completed by the defaults, the collective is loaded when the expense does not carry it,
  the rate is the one supplied or the one fetched, the amounts are computed, the record
  is assembled and, when the payee bears the fees, adapted. The record reads the
  collective's currency once \<open>computeExpenseAmounts\<close> has succeeded, which it does with a
  collective only: the \<open>None\<close> branch of that \<open>case\<close> is never taken.
\<close>

definition createTransactionsFromPaidExpense_over ::
  "'n arith \<Rightarrow> 'n env \<Rightarrow> host \<Rightarrow> 'n expense \<Rightarrow> 'n FEES_IN_HOST_CURRENCY \<Rightarrow> 'n fxRateConfig \<Rightarrow>
   'n payload option \<Rightarrow> paymentMethod option \<Rightarrow> error + 'n transaction" where
  "createTransactionsFromPaidExpense_over ops env host expense0 fees0 expenseToHostFxRateConfig
       transactionData paymentMethod =
     (let fees = mergeFees (DEFAULT_FEES_over ops) fees0;
          expense = loadCollective env expense0
      in
        case resolveFxRate env expenseToHostFxRateConfig expense host of
          Inl e \<Rightarrow> Inl e
        | Inr expenseToHostFxRate \<Rightarrow>
            let expenseDataForTransaction =
                  (case expense_taxes expense of
                     [] \<Rightarrow> [''expenseToHostFxRate'' \<mapsto> JNum expenseToHostFxRate]
                   | t # _ \<Rightarrow>
                       [''expenseToHostFxRate'' \<mapsto> JNum expenseToHostFxRate,
                        ''tax'' \<mapsto> taxForTransaction_over ops t])
            in
              (case computeExpenseAmounts_over ops expense (host_currency host)
                      expenseToHostFxRate fees of
                Inl e \<Rightarrow> Inl e
              | Inr processedAmounts \<Rightarrow>
                  let transaction =
                        \<lparr>netAmountInCollectiveCurrency =
                           js_mul ops (js_neg ops (js_num ops 1))
                             (js_add ops
                               (js_add ops
                                 (js_add ops
                                   (inCollectiveCurrency (pa_amount processedAmounts))
                                   (inCollectiveCurrency
                                     (pa_paymentProcessorFee processedAmounts)))
                                 (inCollectiveCurrency (pa_hostFee processedAmounts)))
                               (inCollectiveCurrency (pa_platformFee processedAmounts))),
                         amountInHostCurrency =
                           js_neg ops (inHostCurrency (pa_amount processedAmounts)),
                         hostCurrency = host_currency host,
                         hostCurrencyFxRate = collectiveToHost (pa_fxRates processedAmounts),
                         paymentProcessorFeeInHostCurrency =
                           toNegative_over ops (paymentProcessorFee_in fees),
                         hostFeeInHostCurrency = toNegative_over ops (hostFee_in fees),
                         platformFeeInHostCurrency = toNegative_over ops (platformFee_in fees),
                         ExpenseId = expense_id expense,
                         type = DEBIT,
                         kind = EXPENSE,
                         amount = js_neg ops (inCollectiveCurrency (pa_amount processedAmounts)),
                         currency =
                           (case expense_collective expense of
                              Some c \<Rightarrow> collective_currency c | None \<Rightarrow> []),
                         description = expense_description expense,
                         CreatedByUserId = expense_UserId expense,
                         CollectiveId = expense_CollectiveId expense,
                         FromCollectiveId = expense_FromCollectiveId expense,
                         HostCollectiveId = host_id host,
                         PaymentMethodId = map_option paymentMethod_id paymentMethod,
                         PayoutMethodId = expense_PayoutMethodId expense,
                         taxAmount = computeExpenseTaxes_over ops expense,
                         data = spread transactionData ++ expenseDataForTransaction\<rparr>
                  in
                    Inr (if expense_feesPayer expense = ''PAYEE'' then
                           transaction
                             \<lparr>amount := js_add ops (amount transaction)
                                (inCollectiveCurrency (pa_paymentProcessorFee processedAmounts)),
                              amountInHostCurrency :=
                                js_add ops (amountInHostCurrency transaction)
                                  (inHostCurrency (pa_paymentProcessorFee processedAmounts)),
                              netAmountInCollectiveCurrency :=
                                js_add ops (netAmountInCollectiveCurrency transaction)
                                  (inCollectiveCurrency
                                    (pa_paymentProcessorFee processedAmounts)),
                              data := (data transaction)(''feesPayer'' \<mapsto> JStr ''PAYEE'')\<rparr>
                         else transaction)))"

text \<open>
  The \<^verbatim>\<open>amounts\<close> object of \<^verbatim>\<open>createTransactionsForManuallyPaidExpense\<close>, which the
  source builds first and then adjusts in place.
\<close>

record 'n manualAmounts =
  ma_amount :: 'n
  ma_amountInHostCurrency :: 'n
  ma_paymentProcessorFeeInHostCurrency :: 'n
  ma_netAmountInCollectiveCurrency :: 'n
  ma_hostCurrencyFxRate :: 'n

text \<open>
  \<^verbatim>\<open>createTransactionsForManuallyPaidExpense\<close>. The two leading assertions fail with
  \<open>InvalidArgument\<close>; the assertion on the currencies fails with
  \<open>UnsupportedCurrencyCombination\<close>. \<^verbatim>\<open>set(transactionData, 'feesPayer', 'PAYEE')\<close>
  leaves a \<^verbatim>\<open>null\<close> as it is. The collective is read before the source would load
  it, so an expense without its collective fails there.
\<close>

definition createTransactionsForManuallyPaidExpense_over ::
  "'n arith \<Rightarrow> 'n env \<Rightarrow> host \<Rightarrow> 'n expense \<Rightarrow> 'n \<Rightarrow> 'n \<Rightarrow> 'n payload option \<Rightarrow>
   error + 'n transaction" where
  "createTransactionsForManuallyPaidExpense_over ops env host expense
       paymentProcessorFeeInHostCurrency' totalAmountPaidInHostCurrency transactionData0 =
     (if \<not> js_ge ops paymentProcessorFeeInHostCurrency' (js_num ops 0) then Inl InvalidArgument
      else if \<not> js_gt ops totalAmountPaidInHostCurrency (js_num ops 0) then Inl InvalidArgument
      else
        let isCoveredByPayee = (expense_feesPayer expense = ''PAYEE'');
            grossAmount =
              toNegative_over ops
                (js_sub ops totalAmountPaidInHostCurrency paymentProcessorFeeInHostCurrency');
            amounts0 =
              \<lparr>ma_amount = grossAmount,
               ma_amountInHostCurrency = grossAmount,
               ma_paymentProcessorFeeInHostCurrency =
                 toNegative_over ops paymentProcessorFeeInHostCurrency',
               ma_netAmountInCollectiveCurrency =
                 toNegative_over ops totalAmountPaidInHostCurrency,
               ma_hostCurrencyFxRate = js_num ops 1\<rparr>;
            transactionData =
              (if isCoveredByPayee then
                 map_option (\<lambda>d. d(''feesPayer'' \<mapsto> JStr ''PAYEE'')) transactionData0
               else transactionData0)
        in
          case expense_collective expense of
            None \<Rightarrow> Inl TypeError
          | Some collective \<Rightarrow>
              (case
                 (if host_currency host \<noteq> collective_currency collective then
                    if expense_currency expense = collective_currency collective then
                      let amounts1 = amounts0\<lparr>ma_hostCurrencyFxRate :=
                            js_roundTo ops
                              (js_abs ops (js_div ops grossAmount (expense_amount expense))) 5\<rparr>;
                          amounts2 = amounts1\<lparr>ma_amount :=
                            js_roundTo ops
                              (js_div ops (ma_amount amounts1) (ma_hostCurrencyFxRate amounts1))
                              0\<rparr>
                      in
                        Inr (amounts2\<lparr>ma_netAmountInCollectiveCurrency :=
                          js_roundTo ops
                            (js_div ops (ma_netAmountInCollectiveCurrency amounts2)
                               (ma_hostCurrencyFxRate amounts2)) 0\<rparr>)
                    else Inl UnsupportedCurrencyCombination
                  else Inr amounts0)
               of
                 Inl e \<Rightarrow> Inl e
               | Inr amounts \<Rightarrow>
                   let expenseDataForTransaction =
                         (case expense_taxes expense of
                            [] \<Rightarrow> Map.empty
                          | t # _ \<Rightarrow> [''tax'' \<mapsto> taxForTransaction_over ops t])
                   in
                     Inr \<lparr>netAmountInCollectiveCurrency =
                            ma_netAmountInCollectiveCurrency amounts,
                          amountInHostCurrency = ma_amountInHostCurrency amounts,
                          hostCurrency = host_currency host,
                          hostCurrencyFxRate = ma_hostCurrencyFxRate amounts,
                          paymentProcessorFeeInHostCurrency =
                            ma_paymentProcessorFeeInHostCurrency amounts,
                          hostFeeInHostCurrency = js_num ops 0,
                          platformFeeInHostCurrency = js_num ops 0,
                          ExpenseId = expense_id expense,
                          type = DEBIT,
                          kind = EXPENSE,
                          amount = ma_amount amounts,
                          currency = collective_currency collective,
                          description = expense_description expense,
                          CreatedByUserId = expense_UserId expense,
                          CollectiveId = expense_CollectiveId expense,
                          FromCollectiveId = expense_FromCollectiveId expense,
                          HostCollectiveId = host_id host,
                          PaymentMethodId = None,
                          PayoutMethodId = expense_PayoutMethodId expense,
                          taxAmount = computeExpenseTaxes_over ops expense,
                          data =
                            [''isManual'' \<mapsto> JBool True] ++ spread transactionData ++
                            expenseDataForTransaction\<rparr>))"

subsection \<open>The reading over the exact reals\<close>

text \<open>
  The functions of the source, with the numbers read as exact reals. The lemmas named
  \<open>_exact\<close> below write each of them out.
\<close>

definition toNegative :: "real \<Rightarrow> real" where
  "toNegative = toNegative_over exact"

definition DEFAULT_FEES :: "real fees" where
  "DEFAULT_FEES = DEFAULT_FEES_over exact"

definition computeExpenseAmounts ::
  "real expense \<Rightarrow> string \<Rightarrow> real \<Rightarrow> real fees \<Rightarrow> error + real processedAmounts" where
  "computeExpenseAmounts = computeExpenseAmounts_over exact"

definition computeExpenseTaxes :: "real expense \<Rightarrow> real option" where
  "computeExpenseTaxes = computeExpenseTaxes_over exact"

definition taxForTransaction :: "real tax \<Rightarrow> real json" where
  "taxForTransaction = taxForTransaction_over exact"

definition createTransactionsFromPaidExpense ::
  "real env \<Rightarrow> host \<Rightarrow> real expense \<Rightarrow> real FEES_IN_HOST_CURRENCY \<Rightarrow> real fxRateConfig \<Rightarrow>
   real payload option \<Rightarrow> paymentMethod option \<Rightarrow> error + real transaction" where
  "createTransactionsFromPaidExpense = createTransactionsFromPaidExpense_over exact"

definition createTransactionsForManuallyPaidExpense ::
  "real env \<Rightarrow> host \<Rightarrow> real expense \<Rightarrow> real \<Rightarrow> real \<Rightarrow> real payload option \<Rightarrow>
   error + real transaction" where
  "createTransactionsForManuallyPaidExpense = createTransactionsForManuallyPaidExpense_over exact"

subsection \<open>Comparisons\<close>

text \<open>
  The comparisons of a number system agree when \<open>x > y\<close> excludes \<open>y >= x\<close>, as it does for
  the doubles and for every order.
\<close>

definition comparisonsAgree :: "'n arith \<Rightarrow> bool" where
  "comparisonsAgree ops \<longleftrightarrow> (\<forall>x y. js_gt ops x y \<longrightarrow> \<not> js_ge ops y x)"

subsection \<open>The invariant of the outflows\<close>



subsection \<open>Sample inputs\<close>

text \<open>
  Concrete inputs, on which the theorems below are instantiated and evaluated. Amounts are
  in minor units.
\<close>

definition sampleCollective :: "string \<Rightarrow> collective" where
  "sampleCollective cur = \<lparr>collective_id = 1, collective_currency = cur\<rparr>"

definition sampleHost :: "string \<Rightarrow> host" where
  "sampleHost cur = \<lparr>host_id = 9, host_currency = cur\<rparr>"

definition sampleExpense :: "real \<Rightarrow> string \<Rightarrow> string \<Rightarrow> string \<Rightarrow> real tax list \<Rightarrow> real expense" where
  "sampleExpense a cur collectiveCur payer taxes =
     \<lparr>expense_id = 7, expense_amount = a, expense_currency = cur,
      expense_collective = Some (sampleCollective collectiveCur),
      expense_description = ''Invoice'', expense_feesPayer = payer, expense_taxes = taxes,
      expense_UserId = 3, expense_CollectiveId = 1, expense_FromCollectiveId = 4,
      expense_PayoutMethodId = Some 5\<rparr>"

definition sampleFees :: "real \<Rightarrow> real \<Rightarrow> real \<Rightarrow> real fees" where
  "sampleFees p h f = \<lparr>paymentProcessorFee_in = p, hostFee_in = h, platformFee_in = f\<rparr>"

definition onlyProcessorFee :: "real \<Rightarrow> real FEES_IN_HOST_CURRENCY" where
  "onlyProcessorFee p =
     \<lparr>fees_paymentProcessorFeeInHostCurrency = Some p, fees_hostFeeInHostCurrency = None,
      fees_platformFeeInHostCurrency = None\<rparr>"


definition sampleEnv :: "real env" where
  "sampleEnv = \<lparr>findByPk = (\<lambda>_. None), getFxRate = (\<lambda>_ _. Inl RateUnavailable)\<rparr>"

definition VAT :: "real \<Rightarrow> real tax" where
  "VAT r = \<lparr>tax_type = ''VAT'', tax_rate = r\<rparr>"

section \<open>The exact reading, written out\<close>

text \<open>
  Over the exact reals the operators are those of the field, \<open>Math_round\<close> and
  \<open>round_lodash\<close>. Each function that carries a name of the source is written out below
  with them; the proofs about the exact reading start from these equations.
\<close>

lemma exact_simps:
  "js_num exact = of_int" "js_add exact = (+)" "js_sub exact = (-)" "js_mul exact = (*)"
  "js_div exact = (/)" "js_neg exact = uminus" "js_abs exact = abs"
  "js_round exact = Math_round" "js_roundTo exact = round_lodash"
  "js_ge exact = (\<ge>)" "js_gt exact = (>)" "js_falsy exact = (\<lambda>x. x = 0)"
  by (simp_all add: exact_def)

lemma foldl_add_sum_list: "foldl (+) a xs = a + sum_list xs" for a :: real
  by (induction xs arbitrary: a) simp_all

lemma sumBy_exact: "sumBy_over exact xs = sum_list xs"
  by (cases xs) (simp_all add: sumBy_over_def exact_simps foldl_add_sum_list)


lemma DEFAULT_FEES_exact:
  "DEFAULT_FEES = \<lparr>paymentProcessorFee_in = 0, hostFee_in = 0, platformFee_in = 0\<rparr>"
  by (simp add: DEFAULT_FEES_def DEFAULT_FEES_over_def exact_simps)

lemma computeExpenseAmounts_exact:
  "computeExpenseAmounts expense hostCurrency' expenseToHostFxRate fees =
     (case expense_collective expense of
        None \<Rightarrow> Inl TypeError
      | Some collective \<Rightarrow>
          (case
             (if collective_currency collective = hostCurrency' then
                Inr \<lparr>expenseToHost = expenseToHostFxRate, collectiveToHost = 1,
                     expenseToCollective = expenseToHostFxRate\<rparr>
              else if expense_currency expense = collective_currency collective then
                Inr \<lparr>expenseToHost = expenseToHostFxRate,
                     collectiveToHost = expenseToHostFxRate, expenseToCollective = 1\<rparr>
              else Inl UnsupportedCurrencyCombination)
           of
             Inl e \<Rightarrow> Inl e
           | Inr fxRates \<Rightarrow>
               Inr \<lparr>pa_fxRates = fxRates,
                    pa_amount =
                      \<lparr>inHostCurrency =
                         Math_round (expense_amount expense * expenseToHost fxRates),
                       inCollectiveCurrency =
                         Math_round (expense_amount expense * expenseToCollective fxRates),
                       inExpenseCurrency = expense_amount expense\<rparr>,
                    pa_paymentProcessorFee =
                      \<lparr>inHostCurrency = paymentProcessorFee_in fees,
                       inCollectiveCurrency =
                         Math_round (paymentProcessorFee_in fees / collectiveToHost fxRates),
                       inExpenseCurrency =
                         Math_round (paymentProcessorFee_in fees / expenseToHost fxRates)\<rparr>,
                    pa_hostFee =
                      \<lparr>inHostCurrency = hostFee_in fees,
                       inCollectiveCurrency =
                         Math_round (hostFee_in fees / collectiveToHost fxRates),
                       inExpenseCurrency =
                         Math_round (hostFee_in fees / expenseToHost fxRates)\<rparr>,
                    pa_platformFee =
                      \<lparr>inHostCurrency = platformFee_in fees,
                       inCollectiveCurrency =
                         Math_round (platformFee_in fees / collectiveToHost fxRates),
                       inExpenseCurrency =
                         Math_round (platformFee_in fees / expenseToHost fxRates)\<rparr>\<rparr>))"
  unfolding computeExpenseAmounts_def computeExpenseAmounts_over_def exact_simps
    of_int_0 of_int_1
  by (rule refl)

lemma computeExpenseTaxes_exact:
  "computeExpenseTaxes expense =
     (if expense_taxes expense = [] then None
      else
        let ratesSum = sum_list (map tax_rate (expense_taxes expense));
            amountWithoutTaxes = expense_amount expense / (1 + ratesSum);
            result = - Math_round (expense_amount expense - amountWithoutTaxes)
        in Some (if result = 0 then 0 else result))"
  unfolding computeExpenseTaxes_def computeExpenseTaxes_over_def sumBy_exact exact_simps
    of_int_0 of_int_1
  by (rule refl)

lemma taxForTransaction_exact:
  "taxForTransaction t =
     JObj [(''type'', JStr (tax_type t)),
           (''rate'', JNum (round_lodash (tax_rate t) 4)),
           (''id'', JStr (tax_type t)),
           (''percentage'', JNum (round_lodash (tax_rate t * 100) 0))]"
  by (simp add: taxForTransaction_def taxForTransaction_over_def exact_simps)

lemma createTransactionsFromPaidExpense_exact:
  "createTransactionsFromPaidExpense env host expense0 fees0 expenseToHostFxRateConfig
       transactionData paymentMethod =
     (let fees = mergeFees DEFAULT_FEES fees0;
          expense = loadCollective env expense0
      in
        case resolveFxRate env expenseToHostFxRateConfig expense host of
          Inl e \<Rightarrow> Inl e
        | Inr expenseToHostFxRate \<Rightarrow>
            let expenseDataForTransaction =
                  (case expense_taxes expense of
                     [] \<Rightarrow> [''expenseToHostFxRate'' \<mapsto> JNum expenseToHostFxRate]
                   | t # _ \<Rightarrow>
                       [''expenseToHostFxRate'' \<mapsto> JNum expenseToHostFxRate,
                        ''tax'' \<mapsto> taxForTransaction t])
            in
              (case computeExpenseAmounts expense (host_currency host) expenseToHostFxRate fees of
                Inl e \<Rightarrow> Inl e
              | Inr processedAmounts \<Rightarrow>
                  let transaction =
                        \<lparr>netAmountInCollectiveCurrency =
                           - 1 *
                           (inCollectiveCurrency (pa_amount processedAmounts) +
                            inCollectiveCurrency (pa_paymentProcessorFee processedAmounts) +
                            inCollectiveCurrency (pa_hostFee processedAmounts) +
                            inCollectiveCurrency (pa_platformFee processedAmounts)),
                         amountInHostCurrency = - inHostCurrency (pa_amount processedAmounts),
                         hostCurrency = host_currency host,
                         hostCurrencyFxRate = collectiveToHost (pa_fxRates processedAmounts),
                         paymentProcessorFeeInHostCurrency =
                           toNegative (paymentProcessorFee_in fees),
                         hostFeeInHostCurrency = toNegative (hostFee_in fees),
                         platformFeeInHostCurrency = toNegative (platformFee_in fees),
                         ExpenseId = expense_id expense,
                         type = DEBIT,
                         kind = EXPENSE,
                         amount = - inCollectiveCurrency (pa_amount processedAmounts),
                         currency =
                           (case expense_collective expense of
                              Some c \<Rightarrow> collective_currency c | None \<Rightarrow> []),
                         description = expense_description expense,
                         CreatedByUserId = expense_UserId expense,
                         CollectiveId = expense_CollectiveId expense,
                         FromCollectiveId = expense_FromCollectiveId expense,
                         HostCollectiveId = host_id host,
                         PaymentMethodId = map_option paymentMethod_id paymentMethod,
                         PayoutMethodId = expense_PayoutMethodId expense,
                         taxAmount = computeExpenseTaxes expense,
                         data = spread transactionData ++ expenseDataForTransaction\<rparr>
                  in
                    Inr (if expense_feesPayer expense = ''PAYEE'' then
                           transaction
                             \<lparr>amount := amount transaction +
                                inCollectiveCurrency (pa_paymentProcessorFee processedAmounts),
                              amountInHostCurrency := amountInHostCurrency transaction +
                                inHostCurrency (pa_paymentProcessorFee processedAmounts),
                              netAmountInCollectiveCurrency :=
                                netAmountInCollectiveCurrency transaction +
                                inCollectiveCurrency (pa_paymentProcessorFee processedAmounts),
                              data := (data transaction)(''feesPayer'' \<mapsto> JStr ''PAYEE'')\<rparr>
                         else transaction)))"
  unfolding createTransactionsFromPaidExpense_def createTransactionsFromPaidExpense_over_def
    computeExpenseAmounts_def computeExpenseTaxes_def taxForTransaction_def toNegative_def
    DEFAULT_FEES_def exact_simps of_int_0 of_int_1
  by (rule refl)

lemma createTransactionsForManuallyPaidExpense_exact:
  "createTransactionsForManuallyPaidExpense env host expense paymentProcessorFeeInHostCurrency'
       totalAmountPaidInHostCurrency transactionData0 =
     (if \<not> 0 \<le> paymentProcessorFeeInHostCurrency' then Inl InvalidArgument
      else if \<not> 0 < totalAmountPaidInHostCurrency then Inl InvalidArgument
      else
        let isCoveredByPayee = (expense_feesPayer expense = ''PAYEE'');
            grossAmount =
              toNegative (totalAmountPaidInHostCurrency - paymentProcessorFeeInHostCurrency');
            amounts0 =
              \<lparr>ma_amount = grossAmount,
               ma_amountInHostCurrency = grossAmount,
               ma_paymentProcessorFeeInHostCurrency =
                 toNegative paymentProcessorFeeInHostCurrency',
               ma_netAmountInCollectiveCurrency = toNegative totalAmountPaidInHostCurrency,
               ma_hostCurrencyFxRate = 1\<rparr>;
            transactionData =
              (if isCoveredByPayee then
                 map_option (\<lambda>d. d(''feesPayer'' \<mapsto> JStr ''PAYEE'')) transactionData0
               else transactionData0)
        in
          case expense_collective expense of
            None \<Rightarrow> Inl TypeError
          | Some collective \<Rightarrow>
              (case
                 (if host_currency host \<noteq> collective_currency collective then
                    if expense_currency expense = collective_currency collective then
                      let amounts1 = amounts0\<lparr>ma_hostCurrencyFxRate :=
                            round_lodash \<bar>grossAmount / expense_amount expense\<bar> 5\<rparr>;
                          amounts2 = amounts1\<lparr>ma_amount :=
                            round_lodash (ma_amount amounts1 / ma_hostCurrencyFxRate amounts1) 0\<rparr>
                      in
                        Inr (amounts2\<lparr>ma_netAmountInCollectiveCurrency :=
                          round_lodash
                            (ma_netAmountInCollectiveCurrency amounts2 /
                             ma_hostCurrencyFxRate amounts2) 0\<rparr>)
                    else Inl UnsupportedCurrencyCombination
                  else Inr amounts0)
               of
                 Inl e \<Rightarrow> Inl e
               | Inr amounts \<Rightarrow>
                   let expenseDataForTransaction =
                         (case expense_taxes expense of
                            [] \<Rightarrow> Map.empty
                          | t # _ \<Rightarrow> [''tax'' \<mapsto> taxForTransaction t])
                   in
                     Inr \<lparr>netAmountInCollectiveCurrency =
                            ma_netAmountInCollectiveCurrency amounts,
                          amountInHostCurrency = ma_amountInHostCurrency amounts,
                          hostCurrency = host_currency host,
                          hostCurrencyFxRate = ma_hostCurrencyFxRate amounts,
                          paymentProcessorFeeInHostCurrency =
                            ma_paymentProcessorFeeInHostCurrency amounts,
                          hostFeeInHostCurrency = 0,
                          platformFeeInHostCurrency = 0,
                          ExpenseId = expense_id expense,
                          type = DEBIT,
                          kind = EXPENSE,
                          amount = ma_amount amounts,
                          currency = collective_currency collective,
                          description = expense_description expense,
                          CreatedByUserId = expense_UserId expense,
                          CollectiveId = expense_CollectiveId expense,
                          FromCollectiveId = expense_FromCollectiveId expense,
                          HostCollectiveId = host_id host,
                          PaymentMethodId = None,
                          PayoutMethodId = expense_PayoutMethodId expense,
                          taxAmount = computeExpenseTaxes expense,
                          data =
                            [''isManual'' \<mapsto> JBool True] ++ spread transactionData ++
                            expenseDataForTransaction\<rparr>))"
  unfolding createTransactionsForManuallyPaidExpense_def
    createTransactionsForManuallyPaidExpense_over_def computeExpenseTaxes_def
    taxForTransaction_def toNegative_def exact_simps of_int_0 of_int_1
  by (rule refl)

section \<open>Rounding\<close>









section \<open>The amounts and the FX rates\<close>

text \<open>
  C1. For every expense with a loaded collective, every host currency, every positive
  \<open>expenseToHostFxRate\<close> and all fees: when the collective's currency is the host's,
  \<open>computeExpenseAmounts\<close> succeeds with \<open>collectiveToHost = 1\<close> and
  \<open>expenseToCollective = expenseToHostFxRate\<close>; otherwise, when the expense's currency is
  the collective's, it succeeds with \<open>collectiveToHost = expenseToHostFxRate\<close> and
  \<open>expenseToCollective = 1\<close>. In both cases \<open>expenseToHost\<close> is the rate given.
\<close>

theorem computeExpenseAmounts_fxRates:
  assumes "expense_collective expense = Some c" and "0 < r"
  shows "(collective_currency c = hostCurrency' \<longrightarrow>
            (\<exists>pa. computeExpenseAmounts expense hostCurrency' r fees = Inr pa \<and>
               collectiveToHost (pa_fxRates pa) = 1 \<and>
               expenseToCollective (pa_fxRates pa) = r \<and>
               expenseToHost (pa_fxRates pa) = r)) \<and>
         (collective_currency c \<noteq> hostCurrency' \<and>
          expense_currency expense = collective_currency c \<longrightarrow>
            (\<exists>pa. computeExpenseAmounts expense hostCurrency' r fees = Inr pa \<and>
               collectiveToHost (pa_fxRates pa) = r \<and>
               expenseToCollective (pa_fxRates pa) = 1 \<and>
               expenseToHost (pa_fxRates pa) = r))"
  using assms by (simp add: computeExpenseAmounts_exact)

text \<open>
  The theorem at two inputs: an expense in EUR of a collective in USD under a host in USD,
  and an expense in USD of a collective in USD under a host in JPY.
\<close>

theorem computeExpenseAmounts_fxRates_witness:
  "(\<exists>pa. computeExpenseAmounts (sampleExpense 10000 ''EUR'' ''USD'' ''COLLECTIVE'' []) ''USD'' (5 / 4)
            (sampleFees 300 0 0) = Inr pa \<and>
      collectiveToHost (pa_fxRates pa) = 1 \<and> expenseToCollective (pa_fxRates pa) = 5 / 4 \<and>
      expenseToHost (pa_fxRates pa) = 5 / 4) \<and>
   (\<exists>pa. computeExpenseAmounts (sampleExpense 10000 ''USD'' ''USD'' ''COLLECTIVE'' []) ''JPY'' 150
            (sampleFees 300 0 0) = Inr pa \<and>
      collectiveToHost (pa_fxRates pa) = 150 \<and> expenseToCollective (pa_fxRates pa) = 1 \<and>
      expenseToHost (pa_fxRates pa) = 150)"
  using computeExpenseAmounts_fxRates
      [of "sampleExpense 10000 ''EUR'' ''USD'' ''COLLECTIVE'' []" "sampleCollective ''USD''"
          "5 / 4" "''USD''" "sampleFees 300 0 0"]
    computeExpenseAmounts_fxRates
      [of "sampleExpense 10000 ''USD'' ''USD'' ''COLLECTIVE'' []" "sampleCollective ''USD''"
          150 "''JPY''" "sampleFees 300 0 0"]
  by (simp add: sampleExpense_def sampleCollective_def)

text \<open>
  C2. Over every number system: for every expense with a loaded collective whose currencies
  pass the determination of the rates (the collective's currency is the host's, or the
  expense's currency is the collective's), \<open>computeExpenseAmounts\<close> succeeds,
  \<open>expenseToHost\<close> is the rate given, and
  \<^item> the gross amount is \<open>round (amount * expenseToHost)\<close> in the host currency,
    \<open>round (amount * expenseToCollective)\<close> in the collective currency and the expense's
    amount, unchanged, in the expense currency;
  \<^item> each of the three fees is the input fee, unchanged, in the host currency,
    \<open>round (fee / collectiveToHost)\<close> in the collective currency and
    \<open>round (fee / expenseToHost)\<close> in the expense currency, each rounded on its own.

  The product, the quotient and the rounding are those of the number system, for the
  source those of the doubles.
\<close>

theorem computeExpenseAmounts_amounts:
  assumes "expense_collective expense = Some c"
    and "collective_currency c = hostCurrency' \<or> expense_currency expense = collective_currency c"
  shows "\<exists>pa. computeExpenseAmounts_over ops expense hostCurrency' r fees = Inr pa \<and>
           expenseToHost (pa_fxRates pa) = r \<and>
           pa_amount pa =
             \<lparr>inHostCurrency =
                js_round ops (js_mul ops (expense_amount expense) (expenseToHost (pa_fxRates pa))),
              inCollectiveCurrency =
                js_round ops
                  (js_mul ops (expense_amount expense) (expenseToCollective (pa_fxRates pa))),
              inExpenseCurrency = expense_amount expense\<rparr> \<and>
           pa_paymentProcessorFee pa =
             \<lparr>inHostCurrency = paymentProcessorFee_in fees,
              inCollectiveCurrency =
                js_round ops
                  (js_div ops (paymentProcessorFee_in fees) (collectiveToHost (pa_fxRates pa))),
              inExpenseCurrency =
                js_round ops
                  (js_div ops (paymentProcessorFee_in fees) (expenseToHost (pa_fxRates pa)))\<rparr> \<and>
           pa_hostFee pa =
             \<lparr>inHostCurrency = hostFee_in fees,
              inCollectiveCurrency =
                js_round ops (js_div ops (hostFee_in fees) (collectiveToHost (pa_fxRates pa))),
              inExpenseCurrency =
                js_round ops (js_div ops (hostFee_in fees) (expenseToHost (pa_fxRates pa)))\<rparr> \<and>
           pa_platformFee pa =
             \<lparr>inHostCurrency = platformFee_in fees,
              inCollectiveCurrency =
                js_round ops
                  (js_div ops (platformFee_in fees) (collectiveToHost (pa_fxRates pa))),
              inExpenseCurrency =
                js_round ops
                  (js_div ops (platformFee_in fees) (expenseToHost (pa_fxRates pa)))\<rparr>"
  using assms by (auto simp add: computeExpenseAmounts_over_def)

text \<open>
  Over the exact reals, at rates whose products are doubles: an expense of 10001 in EUR, the
  collective and the host in USD at 5/4, fees of 101, 303 and 450 (the gross amount
  12501.25 is rounded to 12501, the fee 80.8 to 81); and an expense of 10000 in USD, the
  host in JPY at 150, fees of 100, 300 and 450 JPY.
\<close>

theorem computeExpenseAmounts_amounts_witness:
  "(\<exists>pa. computeExpenseAmounts_over exact (sampleExpense 10001 ''EUR'' ''USD'' ''COLLECTIVE'' [])
            ''USD'' (5 / 4) (sampleFees 101 303 450) = Inr pa \<and>
      pa_amount pa =
        \<lparr>inHostCurrency = 12501, inCollectiveCurrency = 12501, inExpenseCurrency = 10001\<rparr> \<and>
      pa_paymentProcessorFee pa =
        \<lparr>inHostCurrency = 101, inCollectiveCurrency = 101, inExpenseCurrency = 81\<rparr> \<and>
      pa_hostFee pa =
        \<lparr>inHostCurrency = 303, inCollectiveCurrency = 303, inExpenseCurrency = 242\<rparr> \<and>
      pa_platformFee pa =
        \<lparr>inHostCurrency = 450, inCollectiveCurrency = 450, inExpenseCurrency = 360\<rparr>) \<and>
   (\<exists>pa. computeExpenseAmounts_over exact (sampleExpense 10000 ''USD'' ''USD'' ''COLLECTIVE'' [])
            ''JPY'' 150 (sampleFees 100 300 450) = Inr pa \<and>
      pa_amount pa =
        \<lparr>inHostCurrency = 1500000, inCollectiveCurrency = 10000, inExpenseCurrency = 10000\<rparr> \<and>
      pa_paymentProcessorFee pa =
        \<lparr>inHostCurrency = 100, inCollectiveCurrency = 1, inExpenseCurrency = 1\<rparr> \<and>
      pa_hostFee pa = \<lparr>inHostCurrency = 300, inCollectiveCurrency = 2, inExpenseCurrency = 2\<rparr> \<and>
      pa_platformFee pa =
        \<lparr>inHostCurrency = 450, inCollectiveCurrency = 3, inExpenseCurrency = 3\<rparr>)"
  using computeExpenseAmounts_amounts
      [of "sampleExpense 10001 ''EUR'' ''USD'' ''COLLECTIVE'' []" "sampleCollective ''USD''"
          "''USD''" exact "5 / 4" "sampleFees 101 303 450"]
    computeExpenseAmounts_amounts
      [of "sampleExpense 10000 ''USD'' ''USD'' ''COLLECTIVE'' []" "sampleCollective ''USD''"
          "''JPY''" exact 150 "sampleFees 100 300 450"]
  by (auto simp add: computeExpenseAmounts_over_def exact_simps sampleExpense_def
        sampleCollective_def sampleFees_def Math_round_def)

text \<open>
  C3, as amended. For every expense with a loaded collective, \<open>computeExpenseAmounts\<close> fails
  with \<open>UnsupportedCurrencyCombination\<close> if and only if the collective's currency differs
  from the host's and the expense's currency differs from the collective's, and it has no
  other failure. In particular it fails when the three currencies are mutually distinct,
  and it succeeds whenever the collective's currency is the host's.
\<close>

theorem computeExpenseAmounts_unsupported:
  assumes "expense_collective expense = Some c"
  shows "(computeExpenseAmounts expense hostCurrency' r fees = Inl UnsupportedCurrencyCombination
            \<longleftrightarrow> collective_currency c \<noteq> hostCurrency' \<and>
                expense_currency expense \<noteq> collective_currency c) \<and>
         (isl (computeExpenseAmounts expense hostCurrency' r fees)
            \<longleftrightarrow> collective_currency c \<noteq> hostCurrency' \<and>
                expense_currency expense \<noteq> collective_currency c) \<and>
         (expense_currency expense \<noteq> collective_currency c \<and>
          collective_currency c \<noteq> hostCurrency' \<and> expense_currency expense \<noteq> hostCurrency' \<longrightarrow>
            computeExpenseAmounts expense hostCurrency' r fees = Inl UnsupportedCurrencyCombination) \<and>
         (collective_currency c = hostCurrency' \<longrightarrow>
            \<not> isl (computeExpenseAmounts expense hostCurrency' r fees))"
  using assms by (simp add: computeExpenseAmounts_exact)

text \<open>Three distinct currencies fail; an expense in GBP of a collective in the host's USD succeeds.\<close>

theorem computeExpenseAmounts_unsupported_witness:
  "computeExpenseAmounts (sampleExpense 10000 ''GBP'' ''EUR'' ''COLLECTIVE'' []) ''USD'' (5 / 4)
     (sampleFees 0 0 0) = Inl UnsupportedCurrencyCombination \<and>
   \<not> isl (computeExpenseAmounts (sampleExpense 10000 ''GBP'' ''USD'' ''COLLECTIVE'' []) ''USD'' (5 / 4)
     (sampleFees 0 0 0))"
  using computeExpenseAmounts_unsupported
      [of "sampleExpense 10000 ''GBP'' ''EUR'' ''COLLECTIVE'' []" "sampleCollective ''EUR''"
          "''USD''" "5 / 4" "sampleFees 0 0 0"]
    computeExpenseAmounts_unsupported
      [of "sampleExpense 10000 ''GBP'' ''USD'' ''COLLECTIVE'' []" "sampleCollective ''USD''"
          "''USD''" "5 / 4" "sampleFees 0 0 0"]
  by (simp add: sampleExpense_def sampleCollective_def)

text \<open>
  The claim as it was stated ties the failure to "more than one of the expense's and the
  collective's currency differs from the host's". Both directions fail. An expense in EUR
  of a collective in EUR under a host in USD has both currencies different from the
  host's, and succeeds. An expense in USD of a collective in EUR under a host in USD has
  only the collective's currency different from the host's, and fails.
\<close>

theorem computeExpenseAmounts_unsupported_counterexample:
  "expense_currency (sampleExpense 10000 ''EUR'' ''EUR'' ''COLLECTIVE'' []) \<noteq> ''USD'' \<and>
   collective_currency (sampleCollective ''EUR'') \<noteq> ''USD'' \<and>
   \<not> isl (computeExpenseAmounts (sampleExpense 10000 ''EUR'' ''EUR'' ''COLLECTIVE'' []) ''USD''
            (5 / 4) (sampleFees 0 0 0)) \<and>
   expense_currency (sampleExpense 10000 ''USD'' ''EUR'' ''COLLECTIVE'' []) = ''USD'' \<and>
   computeExpenseAmounts (sampleExpense 10000 ''USD'' ''EUR'' ''COLLECTIVE'' []) ''USD''
     1 (sampleFees 0 0 0) = Inl UnsupportedCurrencyCombination"
  by (simp add: computeExpenseAmounts_exact sampleExpense_def sampleCollective_def)




section \<open>Transactions of a paid expense\<close>

text \<open>
  A successful call has loaded a collective, resolved a rate and computed the amounts.
\<close>

lemma createTransactionsFromPaidExpense_Inr:
  assumes "createTransactionsFromPaidExpense env host expense fees0 cfg td pm = Inr t"
  shows "\<exists>c r pa.
           expense_collective (loadCollective env expense) = Some c \<and>
           resolveFxRate env cfg (loadCollective env expense) host = Inr r \<and>
           computeExpenseAmounts (loadCollective env expense) (host_currency host) r
             (mergeFees DEFAULT_FEES fees0) = Inr pa"
proof -
  obtain r where r: "resolveFxRate env cfg (loadCollective env expense) host = Inr r"
    using assms
    by (cases "resolveFxRate env cfg (loadCollective env expense) host")
      (simp_all add: createTransactionsFromPaidExpense_exact Let_def)
  obtain pa where pa: "computeExpenseAmounts (loadCollective env expense) (host_currency host) r
             (mergeFees DEFAULT_FEES fees0) = Inr pa"
    using assms r
    by (cases "computeExpenseAmounts (loadCollective env expense) (host_currency host) r
             (mergeFees DEFAULT_FEES fees0)")
      (simp_all add: createTransactionsFromPaidExpense_exact Let_def)
  obtain c where c: "expense_collective (loadCollective env expense) = Some c"
    using pa by (cases "expense_collective (loadCollective env expense)")
      (simp_all add: computeExpenseAmounts_exact)
  from r pa c show ?thesis by blast
qed

text \<open>The payer of the fees has no part in the loading, the rate, the amounts or the tax.\<close>

lemma loadCollective_feesPayer:
  "loadCollective env (expense\<lparr>expense_feesPayer := p\<rparr>) =
   (loadCollective env expense)\<lparr>expense_feesPayer := p\<rparr>"
  by (simp add: loadCollective_def split: option.splits)

lemma resolveFxRate_feesPayer:
  "resolveFxRate env cfg (expense\<lparr>expense_feesPayer := p\<rparr>) host =
   resolveFxRate env cfg expense host"
  by (simp add: resolveFxRate_def split: fxRateConfig.splits)

lemma computeExpenseAmounts_feesPayer:
  "computeExpenseAmounts (expense\<lparr>expense_feesPayer := p\<rparr>) h r fees =
   computeExpenseAmounts expense h r fees"
  by (simp add: computeExpenseAmounts_exact split: option.splits)

lemma computeExpenseTaxes_feesPayer:
  "computeExpenseTaxes (expense\<lparr>expense_feesPayer := p\<rparr>) = computeExpenseTaxes expense"
  by (simp add: computeExpenseTaxes_exact)



text \<open>
  C5. For every successful call of \<open>createTransactionsFromPaidExpense\<close> on an expense whose
  \<open>feesPayer\<close> is \<open>PAYEE\<close>, the call on the same inputs with \<open>feesPayer = COLLECTIVE\<close>
  succeeds too, with a record \<open>t0\<close>, and the record \<open>t\<close> submitted is \<open>t0\<close> but for:
  \<open>amount\<close>, increased by the processor fee in collective currency;
  \<open>amountInHostCurrency\<close>, increased by the processor fee in host currency;
  \<open>netAmountInCollectiveCurrency\<close>, increased by the processor fee in collective currency,
  which makes it \<open>- (gross + host fee + platform fee)\<close> in collective currency; and
  \<open>data\<close>, in which \<open>feesPayer\<close> is set to \<open>PAYEE\<close>.
\<close>

theorem createTransactionsFromPaidExpense_payee:
  assumes "createTransactionsFromPaidExpense env host expense fees0 cfg td pm = Inr t"
    and "expense_feesPayer expense = ''PAYEE''"
  shows "\<exists>t0 r pa.
           createTransactionsFromPaidExpense env host (expense\<lparr>expense_feesPayer := ''COLLECTIVE''\<rparr>)
             fees0 cfg td pm = Inr t0 \<and>
           resolveFxRate env cfg (loadCollective env expense) host = Inr r \<and>
           computeExpenseAmounts (loadCollective env expense) (host_currency host) r
             (mergeFees DEFAULT_FEES fees0) = Inr pa \<and>
           amount t = amount t0 + inCollectiveCurrency (pa_paymentProcessorFee pa) \<and>
           amountInHostCurrency t =
             amountInHostCurrency t0 + inHostCurrency (pa_paymentProcessorFee pa) \<and>
           netAmountInCollectiveCurrency t =
             netAmountInCollectiveCurrency t0 + inCollectiveCurrency (pa_paymentProcessorFee pa) \<and>
           netAmountInCollectiveCurrency t =
             - (inCollectiveCurrency (pa_amount pa) + inCollectiveCurrency (pa_hostFee pa) +
                inCollectiveCurrency (pa_platformFee pa)) \<and>
           data t ''feesPayer'' = Some (JStr ''PAYEE'') \<and>
           t = t0\<lparr>amount := amount t, amountInHostCurrency := amountInHostCurrency t,
                  netAmountInCollectiveCurrency := netAmountInCollectiveCurrency t,
                  data := (data t0)(''feesPayer'' \<mapsto> JStr ''PAYEE'')\<rparr>"
proof -
  from createTransactionsFromPaidExpense_Inr [OF assms(1)] obtain c r pa where
    c: "expense_collective (loadCollective env expense) = Some c" and
    r: "resolveFxRate env cfg (loadCollective env expense) host = Inr r" and
    pa: "computeExpenseAmounts (loadCollective env expense) (host_currency host) r
             (mergeFees DEFAULT_FEES fees0) = Inr pa"
    by blast
  have payer: "expense_feesPayer (loadCollective env expense) = ''PAYEE''"
    using assms(2) by (simp add: loadCollective_def)
  obtain t0 where
    t0: "createTransactionsFromPaidExpense env host (expense\<lparr>expense_feesPayer := ''COLLECTIVE''\<rparr>)
           fees0 cfg td pm = Inr t0"
    using r pa
    by (simp add: createTransactionsFromPaidExpense_exact Let_def loadCollective_feesPayer
          resolveFxRate_feesPayer computeExpenseAmounts_feesPayer)
  have "amount t = amount t0 + inCollectiveCurrency (pa_paymentProcessorFee pa) \<and>
        amountInHostCurrency t =
          amountInHostCurrency t0 + inHostCurrency (pa_paymentProcessorFee pa) \<and>
        netAmountInCollectiveCurrency t =
          netAmountInCollectiveCurrency t0 + inCollectiveCurrency (pa_paymentProcessorFee pa) \<and>
        netAmountInCollectiveCurrency t =
          - (inCollectiveCurrency (pa_amount pa) + inCollectiveCurrency (pa_hostFee pa) +
             inCollectiveCurrency (pa_platformFee pa)) \<and>
        data t ''feesPayer'' = Some (JStr ''PAYEE'') \<and>
        t = t0\<lparr>amount := amount t, amountInHostCurrency := amountInHostCurrency t,
               netAmountInCollectiveCurrency := netAmountInCollectiveCurrency t,
               data := (data t0)(''feesPayer'' \<mapsto> JStr ''PAYEE'')\<rparr>"
    using assms(1) t0 r pa payer
    by (auto simp add: createTransactionsFromPaidExpense_exact Let_def loadCollective_feesPayer
          resolveFxRate_feesPayer computeExpenseAmounts_feesPayer computeExpenseTaxes_feesPayer)
  with t0 r pa show ?thesis by blast
qed

text \<open>
  An expense of 10000 in USD throughout, the rate 1 and a processor fee of 300: the amount
  moves from \<open>- 10000\<close> to \<open>- 9700\<close>, the net amount from \<open>- 10300\<close> to \<open>- 10000\<close>.
\<close>

theorem createTransactionsFromPaidExpense_payee_witness:
  "\<exists>t t0. createTransactionsFromPaidExpense sampleEnv (sampleHost ''USD'')
          (sampleExpense 10000 ''USD'' ''USD'' ''PAYEE'' []) (onlyProcessorFee 300) (Rate 1)
          None None = Inr t \<and>
        createTransactionsFromPaidExpense sampleEnv (sampleHost ''USD'')
          (sampleExpense 10000 ''USD'' ''USD'' ''COLLECTIVE'' []) (onlyProcessorFee 300) (Rate 1)
          None None = Inr t0 \<and>
        amount t0 = - 10000 \<and> amount t = - 9700 \<and>
        amountInHostCurrency t0 = - 10000 \<and> amountInHostCurrency t = - 9700 \<and>
        netAmountInCollectiveCurrency t0 = - 10300 \<and> netAmountInCollectiveCurrency t = - 10000 \<and>
        data t0 ''feesPayer'' = None \<and> data t ''feesPayer'' = Some (JStr ''PAYEE'')"
proof -
  let ?e = "sampleExpense 10000 ''USD'' ''USD'' ''PAYEE'' []"
  have upd: "?e\<lparr>expense_feesPayer := ''COLLECTIVE''\<rparr> =
      sampleExpense 10000 ''USD'' ''USD'' ''COLLECTIVE'' []"
    by (simp add: sampleExpense_def)
  have load: "loadCollective sampleEnv ?e = ?e"
    by (simp add: loadCollective_def sampleExpense_def)
  have amounts: "computeExpenseAmounts ?e ''USD'' 1 (mergeFees DEFAULT_FEES (onlyProcessorFee 300)) =
      Inr \<lparr>pa_fxRates = \<lparr>expenseToHost = 1, collectiveToHost = 1, expenseToCollective = 1\<rparr>,
           pa_amount = \<lparr>inHostCurrency = 10000, inCollectiveCurrency = 10000,
                        inExpenseCurrency = 10000\<rparr>,
           pa_paymentProcessorFee = \<lparr>inHostCurrency = 300, inCollectiveCurrency = 300,
                        inExpenseCurrency = 300\<rparr>,
           pa_hostFee = \<lparr>inHostCurrency = 0, inCollectiveCurrency = 0, inExpenseCurrency = 0\<rparr>,
           pa_platformFee = \<lparr>inHostCurrency = 0, inCollectiveCurrency = 0,
                        inExpenseCurrency = 0\<rparr>\<rparr>"
    by (simp add: computeExpenseAmounts_exact sampleExpense_def sampleCollective_def mergeFees_def
          DEFAULT_FEES_exact onlyProcessorFee_def Math_round_def)
  obtain t where
    t: "createTransactionsFromPaidExpense sampleEnv (sampleHost ''USD'') ?e (onlyProcessorFee 300)
          (Rate 1) None None = Inr t"
    by (simp add: createTransactionsFromPaidExpense_exact Let_def load amounts resolveFxRate_def
          sampleHost_def)
  have payer: "expense_feesPayer ?e = ''PAYEE''"
    by (simp add: sampleExpense_def)
  from createTransactionsFromPaidExpense_payee [OF t payer] obtain t0 where
    t0: "createTransactionsFromPaidExpense sampleEnv (sampleHost ''USD'')
           (sampleExpense 10000 ''USD'' ''USD'' ''COLLECTIVE'' []) (onlyProcessorFee 300) (Rate 1)
           None None = Inr t0"
    and rel: "amount t = amount t0 + 300"
      "amountInHostCurrency t = amountInHostCurrency t0 + 300"
      "netAmountInCollectiveCurrency t = netAmountInCollectiveCurrency t0 + 300"
      "netAmountInCollectiveCurrency t = - 10000"
      "data t ''feesPayer'' = Some (JStr ''PAYEE'')"
    by (auto simp add: upd load amounts resolveFxRate_def sampleHost_def)
  have base: "amount t0 = - 10000" "amountInHostCurrency t0 = - 10000" "data t0 ''feesPayer'' = None"
    using t0
    by (auto simp add: createTransactionsFromPaidExpense_exact Let_def loadCollective_def
          resolveFxRate_def computeExpenseAmounts_exact sampleExpense_def sampleCollective_def
          sampleHost_def mergeFees_def DEFAULT_FEES_exact onlyProcessorFee_def Math_round_def
          spread_def)
  from t t0 rel base show ?thesis by auto
qed

section \<open>Transactions of a manually paid expense\<close>

text \<open>
  C7. Over every number system: \<open>createTransactionsForManuallyPaidExpense\<close> fails with
  \<open>InvalidArgument\<close>, and submits nothing, whenever \<open>fee >= 0\<close> or \<open>total > 0\<close> does not
  hold; so it does whenever \<open>0 > fee\<close> or \<open>0 >= total\<close>, the comparisons being those of
  an order. For \<open>fee >= 0\<close>, \<open>total > 0\<close> and an expense that carries its collective \<open>c\<close>:
  \<^item> when the host's currency is the collective's, the record has
    \<open>amount = amountInHostCurrency = - (total - fee)\<close>,
    \<open>netAmountInCollectiveCurrency = - total\<close> and \<open>hostCurrencyFxRate = 1\<close>;
  \<^item> when the host's currency differs from the collective's and the expense's currency
    differs from the collective's, the call fails with \<open>UnsupportedCurrencyCombination\<close>;
  \<^item> when the host's currency differs from the collective's and the expense's currency is
    the collective's, \<open>hostCurrencyFxRate = round (\<bar>grossAmount / expense.amount\<bar>, 5)\<close> with
    \<open>grossAmount = - (total - fee)\<close>, and \<open>amount\<close> and \<open>netAmountInCollectiveCurrency\<close> are
    \<open>grossAmount\<close> and \<open>- total\<close> divided by this rate and rounded.

  The difference, the quotients and the roundings are those of the number system: where
  the source divides by zero, the statement is about what its division returns.
\<close>

theorem createTransactionsForManuallyPaidExpense_amounts:
  "(\<not> js_ge ops fee (js_num ops 0) \<or> \<not> js_gt ops paid (js_num ops 0) \<longrightarrow>
      createTransactionsForManuallyPaidExpense_over ops env host expense fee paid td =
        Inl InvalidArgument) \<and>
   (comparisonsAgree ops \<and> (js_gt ops (js_num ops 0) fee \<or> js_ge ops (js_num ops 0) paid) \<longrightarrow>
      createTransactionsForManuallyPaidExpense_over ops env host expense fee paid td =
        Inl InvalidArgument) \<and>
   (js_ge ops fee (js_num ops 0) \<and> js_gt ops paid (js_num ops 0) \<and>
    expense_collective expense = Some c \<longrightarrow>
      (host_currency host = collective_currency c \<longrightarrow>
         (\<exists>t. createTransactionsForManuallyPaidExpense_over ops env host expense fee paid td =
                Inr t \<and>
            amount t = js_neg ops (js_sub ops paid fee) \<and>
            amountInHostCurrency t = js_neg ops (js_sub ops paid fee) \<and>
            paymentProcessorFeeInHostCurrency t = js_neg ops fee \<and>
            netAmountInCollectiveCurrency t = js_neg ops paid \<and>
            hostCurrencyFxRate t = js_num ops 1)) \<and>
      (host_currency host \<noteq> collective_currency c \<and>
       expense_currency expense \<noteq> collective_currency c \<longrightarrow>
         createTransactionsForManuallyPaidExpense_over ops env host expense fee paid td =
           Inl UnsupportedCurrencyCombination) \<and>
      (host_currency host \<noteq> collective_currency c \<and>
       expense_currency expense = collective_currency c \<longrightarrow>
         (\<exists>t. createTransactionsForManuallyPaidExpense_over ops env host expense fee paid td =
                Inr t \<and>
            amountInHostCurrency t = js_neg ops (js_sub ops paid fee) \<and>
            paymentProcessorFeeInHostCurrency t = js_neg ops fee \<and>
            hostCurrencyFxRate t =
              js_roundTo ops
                (js_abs ops (js_div ops (js_neg ops (js_sub ops paid fee)) (expense_amount expense)))
                5 \<and>
            amount t =
              js_roundTo ops
                (js_div ops (js_neg ops (js_sub ops paid fee)) (hostCurrencyFxRate t)) 0 \<and>
            netAmountInCollectiveCurrency t =
              js_roundTo ops (js_div ops (js_neg ops paid) (hostCurrencyFxRate t)) 0)))"
proof -
  have contra: "\<not> js_ge ops fee (js_num ops 0) \<or> \<not> js_gt ops paid (js_num ops 0)"
    if "comparisonsAgree ops" "js_gt ops (js_num ops 0) fee \<or> js_ge ops (js_num ops 0) paid"
    using that unfolding comparisonsAgree_def by blast
  show ?thesis
    using contra
    by (auto simp add: createTransactionsForManuallyPaidExpense_over_def Let_def
          toNegative_over_def)
qed

text \<open>
  Over the exact reals: a fee of -1; a total of 0; 10100 paid with a fee of 100, all in
  USD; the same for an expense in GBP of a collective in EUR; and for an expense of 3000
  in EUR of a collective in EUR, where the rate 10000 / 3000 is rounded to 3.33333, the
  amount -3000.003 to -3000 and the net amount -3030.003 to -3030.
\<close>

theorem createTransactionsForManuallyPaidExpense_amounts_witness:
  "createTransactionsForManuallyPaidExpense_over exact sampleEnv (sampleHost ''USD'')
     (sampleExpense 10000 ''USD'' ''USD'' ''COLLECTIVE'' []) (- 1) 10100 None = Inl InvalidArgument \<and>
   createTransactionsForManuallyPaidExpense_over exact sampleEnv (sampleHost ''USD'')
     (sampleExpense 10000 ''USD'' ''USD'' ''COLLECTIVE'' []) 100 0 None = Inl InvalidArgument \<and>
   (\<exists>t. createTransactionsForManuallyPaidExpense_over exact sampleEnv (sampleHost ''USD'')
          (sampleExpense 10000 ''USD'' ''USD'' ''COLLECTIVE'' []) 100 10100 None = Inr t \<and>
        amount t = - 10000 \<and> amountInHostCurrency t = - 10000 \<and>
        paymentProcessorFeeInHostCurrency t = - 100 \<and>
        netAmountInCollectiveCurrency t = - 10100 \<and> hostCurrencyFxRate t = 1) \<and>
   createTransactionsForManuallyPaidExpense_over exact sampleEnv (sampleHost ''USD'')
     (sampleExpense 3000 ''GBP'' ''EUR'' ''COLLECTIVE'' []) 100 10100 None =
     Inl UnsupportedCurrencyCombination \<and>
   (\<exists>t. createTransactionsForManuallyPaidExpense_over exact sampleEnv (sampleHost ''USD'')
          (sampleExpense 3000 ''EUR'' ''EUR'' ''COLLECTIVE'' []) 100 10100 None = Inr t \<and>
        amountInHostCurrency t = - 10000 \<and> hostCurrencyFxRate t = 333333 / 100000 \<and>
        amount t = - 3000 \<and> netAmountInCollectiveCurrency t = - 3030)"
proof -
  note manual = createTransactionsForManuallyPaidExpense_amounts
  note samples = sampleExpense_def sampleHost_def sampleCollective_def
  have agree: "comparisonsAgree exact"
    by (simp add: comparisonsAgree_def exact_simps)
  have negative_fee:
    "createTransactionsForManuallyPaidExpense_over exact sampleEnv (sampleHost ''USD'')
       (sampleExpense 10000 ''USD'' ''USD'' ''COLLECTIVE'' []) (- 1) 10100 None =
     Inl InvalidArgument"
    using manual [of exact "- 1" 10100 sampleEnv "sampleHost ''USD''"
        "sampleExpense 10000 ''USD'' ''USD'' ''COLLECTIVE'' []" None] agree
    by (simp add: exact_simps)
  have nothing_paid:
    "createTransactionsForManuallyPaidExpense_over exact sampleEnv (sampleHost ''USD'')
       (sampleExpense 10000 ''USD'' ''USD'' ''COLLECTIVE'' []) 100 0 None = Inl InvalidArgument"
    using manual [of exact 100 0 sampleEnv "sampleHost ''USD''"
        "sampleExpense 10000 ''USD'' ''USD'' ''COLLECTIVE'' []" None] agree
    by (simp add: exact_simps)
  have same_currency:
    "\<exists>t. createTransactionsForManuallyPaidExpense_over exact sampleEnv (sampleHost ''USD'')
          (sampleExpense 10000 ''USD'' ''USD'' ''COLLECTIVE'' []) 100 10100 None = Inr t \<and>
        amount t = - 10000 \<and> amountInHostCurrency t = - 10000 \<and>
        paymentProcessorFeeInHostCurrency t = - 100 \<and>
        netAmountInCollectiveCurrency t = - 10100 \<and> hostCurrencyFxRate t = 1"
    using manual [of exact 100 10100 sampleEnv "sampleHost ''USD''"
        "sampleExpense 10000 ''USD'' ''USD'' ''COLLECTIVE'' []" None "sampleCollective ''USD''"]
    by (simp add: samples exact_simps)
  have unsupported:
    "createTransactionsForManuallyPaidExpense_over exact sampleEnv (sampleHost ''USD'')
       (sampleExpense 3000 ''GBP'' ''EUR'' ''COLLECTIVE'' []) 100 10100 None =
     Inl UnsupportedCurrencyCombination"
    using manual [of exact 100 10100 sampleEnv "sampleHost ''USD''"
        "sampleExpense 3000 ''GBP'' ''EUR'' ''COLLECTIVE'' []" None "sampleCollective ''EUR''"]
    by (simp add: samples exact_simps)
  have converted:
    "\<exists>t. createTransactionsForManuallyPaidExpense_over exact sampleEnv (sampleHost ''USD'')
          (sampleExpense 3000 ''EUR'' ''EUR'' ''COLLECTIVE'' []) 100 10100 None = Inr t \<and>
        amountInHostCurrency t = - 10000 \<and> hostCurrencyFxRate t = 333333 / 100000 \<and>
        amount t = - 3000 \<and> netAmountInCollectiveCurrency t = - 3030"
  proof -
    let ?e = "sampleExpense 3000 ''EUR'' ''EUR'' ''COLLECTIVE'' []"
    have rate: "js_roundTo exact
        (js_abs exact (js_div exact (js_neg exact (js_sub exact 10100 100)) (expense_amount ?e))) 5 =
        333333 / 100000"
      by (simp add: samples exact_simps round_lodash_def Math_round_def)
    have paid: "js_ge exact 100 (js_num exact 0) \<and> js_gt exact 10100 (js_num exact 0) \<and>
        expense_collective ?e = Some (sampleCollective ''EUR'')"
      by (simp add: samples exact_simps)
    have currencies:
      "host_currency (sampleHost ''USD'') \<noteq> collective_currency (sampleCollective ''EUR'') \<and>
       expense_currency ?e = collective_currency (sampleCollective ''EUR'')"
      by (simp add: samples)
    from manual [of exact 100 10100 sampleEnv "sampleHost ''USD''" ?e None
        "sampleCollective ''EUR''"] paid currencies
    obtain t where
      t: "createTransactionsForManuallyPaidExpense_over exact sampleEnv (sampleHost ''USD'') ?e
            100 10100 None = Inr t" and
      host: "amountInHostCurrency t = js_neg exact (js_sub exact 10100 100)" and
      fx: "hostCurrencyFxRate t = js_roundTo exact
        (js_abs exact (js_div exact (js_neg exact (js_sub exact 10100 100)) (expense_amount ?e))) 5"
        and
      am: "amount t =
        js_roundTo exact (js_div exact (js_neg exact (js_sub exact 10100 100))
          (hostCurrencyFxRate t)) 0" and
      net: "netAmountInCollectiveCurrency t =
        js_roundTo exact (js_div exact (js_neg exact 10100) (hostCurrencyFxRate t)) 0"
      by blast
    have fx': "hostCurrencyFxRate t = 333333 / 100000"
      using fx rate by simp
    have "amount t = - 3000" "netAmountInCollectiveCurrency t = - 3030"
      unfolding am net fx' by (simp_all add: exact_simps round_lodash_def Math_round_def)
    moreover have "amountInHostCurrency t = - 10000"
      unfolding host by (simp add: exact_simps)
    ultimately show ?thesis
      using t fx' by simp
  qed
  from negative_fee nothing_paid same_currency unsupported converted show ?thesis
    by blast
qed

text \<open>
  C10, as amended. For every successful call of \<open>createTransactionsForManuallyPaidExpense\<close>,
  the data of the record is the merge of \<open>isManual = true\<close>, then the caller's
  \<open>transactionData\<close>, then the computed tax block:
  \<^item> \<open>data.isManual\<close> is \<open>true\<close> when the caller's data has no \<open>isManual\<close> key, and is the
    caller's value otherwise;
  \<^item> \<open>data.tax\<close> is the tax block of the first tax line when the expense has tax lines, and
    the caller's entry otherwise;
  \<^item> \<open>data.feesPayer\<close> is \<open>PAYEE\<close> when the payee bears the fees and the caller's data is
    not \<^verbatim>\<open>null\<close>, and the caller's entry otherwise;
  \<^item> every other key has the caller's entry.
\<close>

theorem createTransactionsForManuallyPaidExpense_data:
  assumes "createTransactionsForManuallyPaidExpense env host expense fee paid td = Inr t"
  shows "data t ''isManual'' =
           (case spread td ''isManual'' of None \<Rightarrow> Some (JBool True) | Some v \<Rightarrow> Some v) \<and>
         data t ''tax'' =
           (case expense_taxes expense of
              [] \<Rightarrow> spread td ''tax''
            | tx # _ \<Rightarrow> Some (taxForTransaction tx)) \<and>
         data t ''feesPayer'' =
           (if expense_feesPayer expense = ''PAYEE'' \<and> td \<noteq> None then Some (JStr ''PAYEE'')
            else spread td ''feesPayer'') \<and>
         (\<forall>k. k \<noteq> ''isManual'' \<and> k \<noteq> ''tax'' \<and> k \<noteq> ''feesPayer'' \<longrightarrow> data t k = spread td k)"
  using assms
  by (auto simp add: createTransactionsForManuallyPaidExpense_exact Let_def spread_def map_add_def
        split: if_splits option.splits sum.splits list.splits)

text \<open>A caller's reference and a tax line at 20%: \<open>isManual\<close> is true, both are kept.\<close>

theorem createTransactionsForManuallyPaidExpense_data_witness:
  "\<exists>t. createTransactionsForManuallyPaidExpense sampleEnv (sampleHost ''USD'')
          (sampleExpense 12000 ''USD'' ''USD'' ''COLLECTIVE'' [VAT (20 / 100)]) 100 12000
          (Some [''reference'' \<mapsto> JStr ''wire-42'']) = Inr t \<and>
        data t ''isManual'' = Some (JBool True) \<and>
        data t ''reference'' = Some (JStr ''wire-42'') \<and>
        data t ''tax'' = Some (taxForTransaction (VAT (20 / 100))) \<and>
        data t ''feesPayer'' = None"
proof -
  let ?e = "sampleExpense 12000 ''USD'' ''USD'' ''COLLECTIVE'' [VAT (20 / 100)]"
  obtain t where
    t: "createTransactionsForManuallyPaidExpense sampleEnv (sampleHost ''USD'') ?e 100 12000
          (Some [''reference'' \<mapsto> JStr ''wire-42'']) = Inr t"
    by (simp add: createTransactionsForManuallyPaidExpense_exact Let_def sampleExpense_def
          sampleHost_def sampleCollective_def)
  from createTransactionsForManuallyPaidExpense_data [OF t] t show ?thesis
    by (simp add: spread_def sampleExpense_def)
qed

text \<open>
  The claim as it was stated has \<open>data.isManual = true\<close> whatever the caller passes. The
  caller's data is spread after \<open>isManual: true\<close>, so a caller's \<open>isManual: false\<close> stands.
\<close>

theorem createTransactionsForManuallyPaidExpense_data_counterexample:
  "(case createTransactionsForManuallyPaidExpense sampleEnv (sampleHost ''USD'')
          (sampleExpense 12000 ''USD'' ''USD'' ''COLLECTIVE'' []) 100 12000
          (Some [''isManual'' \<mapsto> JBool False]) of
      Inl e \<Rightarrow> False
    | Inr t \<Rightarrow> data t ''isManual'' = Some (JBool False))"
  by (simp add: createTransactionsForManuallyPaidExpense_exact Let_def sampleExpense_def
        sampleHost_def sampleCollective_def spread_def)

section \<open>The invariant of the outflows\<close>




section \<open>The tax withheld\<close>

text \<open>
  C6. Over every number system: \<open>computeExpenseTaxes\<close> returns \<^verbatim>\<open>null\<close> for an expense
  without tax lines. Otherwise, \<open>ratesSum\<close> being the sum of the rates of the tax lines, it
  returns \<open>- round (amount - amount / (1 + ratesSum))\<close>, with \<open>0\<close> in the place of a falsy
  value: a result that is falsy, as the negative zero is, is the number \<open>0\<close>.
\<close>

theorem computeExpenseTaxes_value:
  "(expense_taxes expense = [] \<longrightarrow> computeExpenseTaxes_over ops expense = None) \<and>
   (expense_taxes expense \<noteq> [] \<longrightarrow>
      computeExpenseTaxes_over ops expense =
        Some (let result =
                    js_neg ops
                      (js_round ops
                        (js_sub ops (expense_amount expense)
                          (js_div ops (expense_amount expense)
                            (js_add ops (js_num ops 1)
                              (sumBy_over ops (map tax_rate (expense_taxes expense)))))))
              in if js_falsy ops result then js_num ops 0 else result)) \<and>
   (\<forall>v. computeExpenseTaxes_over ops expense = Some v \<and> js_falsy ops v \<longrightarrow> v = js_num ops 0)"
  by (auto simp add: computeExpenseTaxes_over_def Let_def split: if_splits)

text \<open>
  Over the exact reals, an amount of 1200: no tax line gives \<^verbatim>\<open>null\<close>, one line at 20%
  gives \<open>-200\<close>, one line at the rate 0 gives \<open>0\<close> and not \<^verbatim>\<open>null\<close>. An amount of 1201
  with two lines at 25% each: the difference 400.33 is rounded, the result is \<open>-400\<close>.
\<close>

theorem computeExpenseTaxes_value_witness:
  "computeExpenseTaxes_over exact (sampleExpense 1200 ''USD'' ''USD'' ''COLLECTIVE'' []) = None \<and>
   computeExpenseTaxes_over exact
     (sampleExpense 1200 ''USD'' ''USD'' ''COLLECTIVE'' [VAT (20 / 100)]) = Some (- 200) \<and>
   computeExpenseTaxes_over exact (sampleExpense 1200 ''USD'' ''USD'' ''COLLECTIVE'' [VAT 0]) =
     Some 0 \<and>
   computeExpenseTaxes_over exact
     (sampleExpense 1201 ''USD'' ''USD'' ''COLLECTIVE'' [VAT (1 / 4), VAT (1 / 4)]) = Some (- 400)"
  using computeExpenseTaxes_value
      [of "sampleExpense 1200 ''USD'' ''USD'' ''COLLECTIVE'' []" exact]
    computeExpenseTaxes_value
      [of "sampleExpense 1200 ''USD'' ''USD'' ''COLLECTIVE'' [VAT (20 / 100)]" exact]
    computeExpenseTaxes_value
      [of "sampleExpense 1200 ''USD'' ''USD'' ''COLLECTIVE'' [VAT 0]" exact]
    computeExpenseTaxes_value
      [of "sampleExpense 1201 ''USD'' ''USD'' ''COLLECTIVE'' [VAT (1 / 4), VAT (1 / 4)]" exact]
  by (simp add: sampleExpense_def VAT_def exact_simps sumBy_over_def Math_round_def)

end
